theory Spec2Isabelle
  imports Main
begin

section \<open>Values of the host language\<close>

text \<open>
  Strings are byte sequences (UTF-8); the payloads exchanged with the service are JSON
  values. Numbers are restricted to integers, objects are association lists whose first
  binding of a key is the one a property read sees.
\<close>

datatype json =
    JNull
  | JBool bool
  | JNum int
  | JStr string
  | JArr "json list"
  | JObj "(string \<times> json) list"

text \<open>Property read \<open>v.k\<close> (also \<open>v?.k\<close> and \<open>v[k]\<close>): \<open>None\<close> is \<open>undefined\<close>.\<close>

definition get_prop :: "json \<Rightarrow> string \<Rightarrow> json option" where
  "get_prop v k = (case v of JObj kvs \<Rightarrow> map_of kvs k | _ \<Rightarrow> None)"

text \<open>Truthiness, as tested by \<open>if\<close>, \<open>!\<close>, \<open>&&\<close>, \<open>||\<close> and \<open>?:\<close>.\<close>

fun truthy :: "json option \<Rightarrow> bool" where
  "truthy None = False"
| "truthy (Some JNull) = False"
| "truthy (Some (JBool b)) = b"
| "truthy (Some (JNum n)) = (n \<noteq> 0)"
| "truthy (Some (JStr s)) = (s \<noteq> [])"
| "truthy (Some (JArr _)) = True"
| "truthy (Some (JObj _)) = True"

text \<open>\<open>a || b\<close>\<close>

definition js_or :: "json option \<Rightarrow> json option \<Rightarrow> json option" where
  "js_or a b = (if truthy a then a else b)"

text \<open>Decimal rendering of a number, as template literals and \<open>String\<close> produce it.\<close>

definition digit :: "nat \<Rightarrow> char" where
  "digit d = char_of (48 + d)"

fun dec :: "nat \<Rightarrow> string" where
  "dec n = (if n < 10 then [digit n] else dec (n div 10) @ [digit (n mod 10)])"

declare dec.simps [simp del]

definition dec_int :: "int \<Rightarrow> string" where
  "dec_int i = (if i < 0 then CHR ''-'' # dec (nat (- i)) else dec (nat i))"

text \<open>\<open>Array.prototype.join\<close> on strings already rendered.\<close>

fun join :: "string \<Rightarrow> string list \<Rightarrow> string" where
  "join sep [] = []"
| "join sep [x] = x"
| "join sep (x # y # ys) = x @ sep @ join sep (y # ys)"

text \<open>
  \<open>String(v)\<close> and \<open>${v}\<close>: \<open>undefined\<close> and \<open>null\<close> print their names, an array joins
  its elements with commas (a null element printing as nothing), an object prints
  \<open>[object Object]\<close>.
\<close>

fun String_js :: "json \<Rightarrow> string" where
  "String_js JNull = ''null''"
| "String_js (JBool b) = (if b then ''true'' else ''false'')"
| "String_js (JNum n) = dec_int n"
| "String_js (JStr s) = s"
| "String_js (JArr xs) = join '','' (map (\<lambda>x. if x = JNull then [] else String_js x) xs)"
| "String_js (JObj kvs) = ''[object Object]''"

definition String_opt :: "json option \<Rightarrow> string" where
  "String_opt v = (case v of None \<Rightarrow> ''undefined'' | Some x \<Rightarrow> String_js x)"

section \<open>Notifications: \<open>useToasts\<close>\<close>

datatype kind = Success | Error

record toast_arg =
  arg_type :: "kind option"
  arg_title :: string
  arg_message :: "string option"

record toast =
  tid :: string
  ttype :: kind
  title :: string
  message :: "string option"

text \<open>
  The hook's state: the list held by \<open>useState\<close>, the timers \<open>setTimeout\<close> has
  registered and not yet fired (due time in ms, id to remove), the clock, and the
  sequence of strings that \<open>Math.random().toString(36).slice(2)\<close> yields, with the number
  already drawn.
\<close>

record toast_state =
  toasts :: "toast list"
  timers :: "(nat \<times> string) list"
  now :: nat
  ids :: "nat \<Rightarrow> string"
  drawn :: nat

definition remove :: "string \<Rightarrow> 'a toast_state_scheme \<Rightarrow> 'a toast_state_scheme" where
  "remove i st = st\<lparr>toasts := filter (\<lambda>t. tid t \<noteq> i) (toasts st)\<rparr>"

definition add :: "toast_arg \<Rightarrow> 'a toast_state_scheme \<Rightarrow> 'a toast_state_scheme" where
  "add a st =
     (let i = ids st (drawn st);
          t = \<lparr>tid = i, ttype = (case arg_type a of None \<Rightarrow> Success | Some k \<Rightarrow> k),
               title = arg_title a, message = arg_message a\<rparr>
      in st\<lparr>toasts := toasts st @ [t],
            timers := timers st @ [(now st + 6000, i)],
            drawn := Suc (drawn st)\<rparr>)"

text \<open>
  The clock moves to \<open>t\<close>: every timer due by then runs its callback \<open>remove(id)\<close>, in
  the order of registration, and leaves the timer list.
\<close>

definition advance_to :: "nat \<Rightarrow> 'a toast_state_scheme \<Rightarrow> 'a toast_state_scheme" where
  "advance_to t st =
     (fold (\<lambda>(d, i). remove i) (filter (\<lambda>(d, i). d \<le> t) (timers st)) st)
       \<lparr>timers := filter (\<lambda>(d, i). \<not> d \<le> t) (timers st), now := max (now st) t\<rparr>"

section \<open>Strings\<close>

text \<open>
  \<open>String.prototype.trim\<close>, \<open>toLowerCase\<close> and \<open>endsWith\<close>, on the ASCII part of the
  alphabet: the white space is tab, line feed, vertical tab, form feed, carriage return
  and space; the letters changed are \<open>A\<close> to \<open>Z\<close>. No character outside ASCII
  lower-cases to a letter of \<open>.csv\<close>, \<open>.xlsx\<close> or \<open>.xls\<close>, so the test of a file
  name's ending is the one of the source on every name.
\<close>

definition is_ws :: "char \<Rightarrow> bool" where
  "is_ws c = (c \<in> {CHR 0x09, CHR 0x0A, CHR 0x0B, CHR 0x0C, CHR 0x0D, CHR 0x20})"

definition trim :: "string \<Rightarrow> string" where
  "trim s = rev (dropWhile is_ws (rev (dropWhile is_ws s)))"

definition lower_char :: "char \<Rightarrow> char" where
  "lower_char c =
     (if 65 \<le> (of_char c :: nat) \<and> (of_char c :: nat) \<le> 90
      then char_of ((of_char c :: nat) + 32) else c)"

definition toLowerCase :: "string \<Rightarrow> string" where
  "toLowerCase s = map lower_char s"

definition endsWith :: "string \<Rightarrow> string \<Rightarrow> bool" where
  "endsWith s suf =
     (length suf \<le> length s \<and> drop (length s - length suf) s = suf)"

definition includes_js :: "'a list \<Rightarrow> 'a \<Rightarrow> bool" where
  "includes_js xs x = (x \<in> set xs)"

text \<open>\<open>JSON.stringify\<close> of an array of strings, as the history is written to storage.\<close>

definition hexdigit :: "nat \<Rightarrow> char" where
  "hexdigit n = (if n < 10 then char_of (48 + n) else char_of (87 + n))"

definition quote_char :: "char \<Rightarrow> string" where
  "quote_char c =
     (if c = CHR 0x22 then [CHR 0x5C, CHR 0x22]
      else if c = CHR 0x5C then [CHR 0x5C, CHR 0x5C]
      else if c = CHR 0x08 then [CHR 0x5C, CHR ''b'']
      else if c = CHR 0x0C then [CHR 0x5C, CHR ''f'']
      else if c = CHR 0x0A then [CHR 0x5C, CHR ''n'']
      else if c = CHR 0x0D then [CHR 0x5C, CHR ''r'']
      else if c = CHR 0x09 then [CHR 0x5C, CHR ''t'']
      else if (of_char c :: nat) < 32
        then [CHR 0x5C, CHR ''u'', CHR ''0'', CHR ''0'',
              hexdigit ((of_char c :: nat) div 16), hexdigit ((of_char c :: nat) mod 16)]
      else [c])"

definition quote_string :: "string \<Rightarrow> string" where
  "quote_string s = [CHR 0x22] @ concat (map quote_char s) @ [CHR 0x22]"

definition JSON_stringify :: "string list \<Rightarrow> string" where
  "JSON_stringify xs = ''['' @ join '','' (map quote_string xs) @ '']''"

section \<open>The workspace: \<open>App\<close> and \<open>FileUpload\<close>\<close>

record upfile =
  fname :: string
  ftype :: string

text \<open>
  What the component sends: the table listing, a schema read and a deletion (with the
  path component handed to \<open>encodeURIComponent\<close>), the upload (form field and file)
  and the query (the \<open>query\<close> member of the body).
\<close>

datatype request =
    ListTables
  | GetSchema string
  | DeleteTable string
  | PostUpload string upfile
  | PostQuery string

text \<open>
  What \<open>fetch\<close> settles with: a response with its status and the outcome of
  \<open>res.json()\<close> (the parsed body, or the message of the error it rejects with), or a
  rejection of \<open>fetch\<close> itself with its message.
\<close>

datatype response =
    Resp nat "string + json"
  | Transport string

definition ok :: "nat \<Rightarrow> bool" where
  "ok status = (200 \<le> status \<and> status \<le> 299)"

text \<open>
  The shared head of the \<open>try\<close> blocks: \<open>await fetch\<close>, the throw on \<open>!res.ok\<close>,
  \<open>await res.json()\<close>. \<open>Inl\<close> carries \<open>e.message\<close> to the \<open>catch\<close>.
\<close>

definition settle :: "response \<Rightarrow> string + json" where
  "settle r =
     (case r of
        Transport m \<Rightarrow> Inl m
      | Resp status body \<Rightarrow>
          if \<not> ok status then Inl (''Status '' @ dec status) else body)"

text \<open>The same without reading the body, as \<open>deleteTable\<close> does.\<close>

definition settle_status :: "response \<Rightarrow> string + unit" where
  "settle_status r =
     (case r of
        Transport m \<Rightarrow> Inl m
      | Resp status body \<Rightarrow>
          if \<not> ok status then Inl (''Status '' @ dec status) else Inr ())"

text \<open>A state cell holding \<open>null\<close> or a value: JSON \<open>null\<close> is the empty cell.\<close>

definition nullable :: "json \<Rightarrow> json option" where
  "nullable v = (if v = JNull then None else Some v)"

text \<open>
  The \<open>useState\<close> cells of \<open>App\<close> and of \<open>FileUpload\<close>, on top of the notification
  state, with \<open>localStorage\<close> and the requests issued so far.
\<close>

record app_state = toast_state +
  tables :: json
  selectedTable :: "json option"
  schema :: "json option"
  loadingTables :: bool
  loadingSchema :: bool
  query :: string
  running :: bool
  result :: "json option"
  history :: "string list"
  uploading :: bool
  progress :: nat
  storage :: "string \<rightharpoonup> string"
  net :: "request list"

definition error_toast :: "string \<Rightarrow> string \<Rightarrow> toast_arg" where
  "error_toast t m = \<lparr>arg_type = Some Error, arg_title = t, arg_message = Some m\<rparr>"

definition plain_toast :: "string \<Rightarrow> string option \<Rightarrow> toast_arg" where
  "plain_toast t m = \<lparr>arg_type = None, arg_title = t, arg_message = m\<rparr>"

subsection \<open>\<open>refreshTables\<close>\<close>

text \<open>
  \<open>Array.isArray(data) ? data : (data.tables || [])\<close>; reading \<open>tables\<close> of \<open>null\<close>
  throws a TypeError, which the \<open>catch\<close> reports.
\<close>

definition null_read :: string where
  "null_read = ''Cannot read properties of null''"

definition pick_tables :: "json \<Rightarrow> string + json" where
  "pick_tables data =
     (case data of
        JArr xs \<Rightarrow> Inr data
      | JNull \<Rightarrow> Inl null_read
      | _ \<Rightarrow> (case get_prop data ''tables'' of
                Some t \<Rightarrow> Inr (if truthy (Some t) then t else JArr [])
              | None \<Rightarrow> Inr (JArr [])))"

definition refreshTables_start :: "app_state \<Rightarrow> app_state" where
  "refreshTables_start s = s\<lparr>loadingTables := True, net := net s @ [ListTables]\<rparr>"

definition refreshTables_resolve :: "response \<Rightarrow> app_state \<Rightarrow> app_state" where
  "refreshTables_resolve r s =
     (case settle r of
        Inl m \<Rightarrow> add (error_toast ''Failed to load tables'' m) s
      | Inr data \<Rightarrow>
          (case pick_tables data of
             Inl m \<Rightarrow> add (error_toast ''Failed to load tables'' m) s
           | Inr t \<Rightarrow> s\<lparr>tables := t\<rparr>))
       \<lparr>loadingTables := False\<rparr>"

text \<open>The call run to its end with nothing in between.\<close>

definition refreshTables :: "response \<Rightarrow> app_state \<Rightarrow> app_state" where
  "refreshTables r s = refreshTables_resolve r (refreshTables_start s)"

subsection \<open>\<open>fetchSchema\<close> and the selection effect\<close>



text \<open>\<open>t.id || t._id || t.name\<close>\<close>

definition table_ident :: "json \<Rightarrow> json option" where
  "table_ident t = js_or (js_or (get_prop t ''id'') (get_prop t ''_id'')) (get_prop t ''name'')"


subsection \<open>\<open>deleteTable\<close>\<close>

text \<open>
  \<open>a === b\<close> on property values: \<open>undefined\<close> equals \<open>undefined\<close>, primitives compare
  by value; arrays and objects compare by reference, which a value does not carry, and
  are taken as different.
\<close>

definition strict_eq :: "json option \<Rightarrow> json option \<Rightarrow> bool" where
  "strict_eq a b =
     (case a of
        Some (JArr xs) \<Rightarrow> False
      | Some (JObj kvs) \<Rightarrow> False
      | _ \<Rightarrow> a = b)"

definition opt_prop :: "json option \<Rightarrow> string \<Rightarrow> json option" where
  "opt_prop v k = (case v of None \<Rightarrow> None | Some x \<Rightarrow> get_prop x k)"

text \<open>
  The call run to its end with nothing in between: the answer to \<open>confirm\<close>, the
  response to the DELETE and the response to the listing that \<open>refreshTables\<close> awaits
  are its inputs. \<open>selectedTable\<close> is the value the closure holds, the one of the state
  the call started in.
\<close>

definition deleteTable :: "json \<Rightarrow> bool \<Rightarrow> response \<Rightarrow> response \<Rightarrow> app_state \<Rightarrow> app_state" where
  "deleteTable tbl confirmed rdel rlist s =
     (if \<not> confirmed then s
      else
        let s1 = s\<lparr>net := net s @ [DeleteTable (String_opt (table_ident tbl))]\<rparr>
        in case settle_status rdel of
             Inl m \<Rightarrow> add (error_toast ''Failed to delete'' m) s1
           | Inr u \<Rightarrow>
               let s2 = refreshTables rlist (add (plain_toast ''Table deleted'' None) s1)
               in if truthy (selectedTable s)
                     \<and> strict_eq (opt_prop (selectedTable s) ''id'') (get_prop tbl ''id'')
                  then s2\<lparr>selectedTable := None, schema := None\<rparr>
                  else s2)"

subsection \<open>\<open>runQuery\<close>, the Enter key and the run button\<close>

text \<open>Up to the first \<open>await\<close>.\<close>

definition runQuery_start :: "app_state \<Rightarrow> app_state" where
  "runQuery_start s =
     (if trim (query s) = [] then s
      else s\<lparr>running := True, result := None, net := net s @ [PostQuery (trim (query s))]\<rparr>)"

text \<open>
  The continuation: \<open>q\<close> and \<open>h\<close> are the \<open>query\<close> and \<open>history\<close> the closure holds.
\<close>

definition runQuery_resolve :: "string \<Rightarrow> string list \<Rightarrow> response \<Rightarrow> app_state \<Rightarrow> app_state" where
  "runQuery_resolve q h r s =
     (case settle r of
        Inl m \<Rightarrow> add (error_toast ''Query failed'' m) s
      | Inr data \<Rightarrow>
          let s1 = add (plain_toast ''Query completed'' None) (s\<lparr>result := nullable data\<rparr>);
              newHist = take 10 (trim q # filter (\<lambda>x. x \<noteq> trim q) h)
          in s1\<lparr>history := newHist,
                storage := (storage s1)(''query_history'' \<mapsto> JSON_stringify newHist)\<rparr>)
       \<lparr>running := False\<rparr>"

text \<open>The call run to its end with nothing in between.\<close>

definition runQuery :: "response \<Rightarrow> app_state \<Rightarrow> app_state" where
  "runQuery r s =
     (if trim (query s) = [] then s
      else runQuery_resolve (query s) (history s) r (runQuery_start s))"

record key_event =
  key :: string
  shiftKey :: bool

text \<open>\<open>onKeyDown\<close> of the text area, up to the first \<open>await\<close> of the run it starts.\<close>

definition handleKeySubmit :: "key_event \<Rightarrow> app_state \<Rightarrow> app_state" where
  "handleKeySubmit e s =
     (if key e = ''Enter'' \<and> \<not> shiftKey e then runQuery_start s else s)"

text \<open>
  A click on the run button: \<open>disabled={loading || !query.trim()}\<close>, and a disabled
  button delivers no click.
\<close>

definition click_run :: "app_state \<Rightarrow> app_state" where
  "click_run s = (if running s \<or> trim (query s) = [] then s else runQuery_start s)"

subsection \<open>The history initializer\<close>

text \<open>
  \<open>JSON.parse\<close> is a parameter: \<open>None\<close> is the SyntaxError it throws, which the
  \<open>catch\<close> turns into the empty list.
\<close>

definition load_history :: "(string \<Rightarrow> json option) \<Rightarrow> (string \<rightharpoonup> string) \<Rightarrow> json" where
  "load_history parse store =
     (let text = (case store ''query_history'' of
                    None \<Rightarrow> ''[]''
                  | Some v \<Rightarrow> if v = [] then ''[]'' else v)
      in case parse text of
           None \<Rightarrow> JArr []
         | Some j \<Rightarrow> j)"

subsection \<open>\<open>handleFiles\<close> and the handlers of its request\<close>

definition allowed :: "string list" where
  "allowed = [''text/csv'', ''application/vnd.ms-excel'',
     ''application/vnd.openxmlformats-officedocument.spreadsheetml.sheet'']"

definition unsupported :: "upfile \<Rightarrow> bool" where
  "unsupported f =
     (\<not> includes_js allowed (ftype f)
      \<and> \<not> endsWith (toLowerCase (fname f)) ''.csv''
      \<and> \<not> endsWith (toLowerCase (fname f)) ''.xlsx''
      \<and> \<not> endsWith (toLowerCase (fname f)) ''.xls'')"

definition handleFiles :: "upfile list \<Rightarrow> app_state \<Rightarrow> app_state" where
  "handleFiles files s =
     (case files of
        [] \<Rightarrow> s
      | f # rest \<Rightarrow>
          if unsupported f
          then add (error_toast ''Unsupported file'' ''Please upload CSV or Excel files.'') s
          else s\<lparr>uploading := True, net := net s @ [PostUpload ''file'' f]\<rparr>)"




definition upload_onerror :: "app_state \<Rightarrow> app_state" where
  "upload_onerror s =
     add (error_toast ''Network error'' ''Could not upload file.'')
       (s\<lparr>uploading := False, progress := 0\<rparr>)"

section \<open>CSV export\<close>










subsection \<open>The reader the export is measured against\<close>





section \<open>Inputs used in the examples\<close>

definition toast0 :: toast_state where
  "toast0 = \<lparr>toasts = [], timers = [], now = 0,
     ids = (\<lambda>n. replicate (Suc n) CHR ''k''), drawn = 0\<rparr>"

definition saved :: toast_arg where
  "saved = \<lparr>arg_type = None, arg_title = ''Saved'', arg_message = None\<rparr>"

definition app0 :: app_state where
  "app0 = \<lparr>toasts = [], timers = [], now = 0,
     ids = (\<lambda>n. replicate (Suc n) CHR ''k''), drawn = 0,
     tables = JArr [], selectedTable = None, schema = None, loadingTables = False,
     loadingSchema = False, query = [], running = False, result = None, history = [],
     uploading = False, progress = 0, storage = Map.empty, net = []\<rparr>"



definition schemaA :: json where
  "schemaA = JObj [(''columns'', JArr [JObj [(''name'', JStr ''a1''), (''type'', JStr ''int'')]])]"



text \<open>A workspace with a query in flight.\<close>

definition busy :: app_state where
  "busy = app0\<lparr>query := ''top 10'', running := True, net := [PostQuery ''top 10'']\<rparr>"

definition enter :: key_event where
  "enter = \<lparr>key = ''Enter'', shiftKey = False\<rparr>"


definition data_txt :: upfile where
  "data_txt = \<lparr>fname = ''data.txt'', ftype = ''text/plain''\<rparr>"

definition sales_csv :: upfile where
  "sales_csv = \<lparr>fname = ''sales.csv'', ftype = []\<rparr>"


text \<open>Two rows of a listing that carry a name and no \<open>id\<close>.\<close>

definition named_a :: json where
  "named_a = JObj [(''name'', JStr ''a'')]"

definition named_b :: json where
  "named_b = JObj [(''name'', JStr ''b'')]"

definition viewing_a :: app_state where
  "viewing_a = app0\<lparr>tables := JArr [named_a, named_b], selectedTable := Some named_a,
     schema := Some schemaA\<rparr>"


text \<open>\<open>JSON.parse\<close> on the two texts the example needs; every other text is rejected.\<close>

definition parse_fragment :: "string \<Rightarrow> json option" where
  "parse_fragment s =
     (if s = ''[]'' then Some (JArr [])
      else if s = ''[1]'' then Some (JArr [JNum 1])
      else None)"

section \<open>Notions used in the proofs about the export\<close>




section \<open>Facts about the notification state\<close>

lemma timers_remove: "timers (remove i st) = timers st"
  by (simp add: remove_def)

lemma toasts_remove: "toasts (remove i st) = filter (\<lambda>t. tid t \<noteq> i) (toasts st)"
  by (simp add: remove_def)

lemma remove_idem: "remove i (remove i st) = remove i st"
  by (simp add: remove_def)

lemma toasts_fold_remove:
  "toasts (fold (\<lambda>(d, i). remove i) ds st) = filter (\<lambda>t. tid t \<notin> snd ` set ds) (toasts st)"
proof (induction ds arbitrary: st)
  case Nil
  then show ?case by simp
next
  case (Cons p ds)
  obtain d i where p: "p = (d, i)" by (cases p)
  show ?case
    by (simp add: p Cons.IH toasts_remove conj_commute)
qed

lemma toasts_advance_to:
  "toasts (advance_to t st) =
     filter (\<lambda>x. \<not> (\<exists>d. d \<le> t \<and> (d, tid x) \<in> set (timers st))) (toasts st)"
proof -
  have "\<And>y. (y \<in> snd ` set (filter (\<lambda>(d, i). d \<le> t) (timers st)))
           = (\<exists>d. d \<le> t \<and> (d, y) \<in> set (timers st))"
    by force
  then show ?thesis
    by (simp add: advance_to_def toasts_fold_remove)
qed

lemma timers_advance_to:
  "timers (advance_to t st) = filter (\<lambda>(d, i). \<not> d \<le> t) (timers st)"
  by (simp add: advance_to_def)

lemma add_fields:
  "toasts (add a st) = toasts st @
     [\<lparr>tid = ids st (drawn st), ttype = (case arg_type a of None \<Rightarrow> Success | Some k \<Rightarrow> k),
       title = arg_title a, message = arg_message a\<rparr>]"
  "timers (add a st) = timers st @ [(now st + 6000, ids st (drawn st))]"
  "now (add a st) = now st"
  "ids (add a st) = ids st"
  "drawn (add a st) = Suc (drawn st)"
  by (simp_all add: add_def Let_def)

lemma add_app_fields:
  fixes s :: app_state
  shows "tables (add a s) = tables s"
    and "selectedTable (add a s) = selectedTable s"
    and "schema (add a s) = schema s"
    and "loadingTables (add a s) = loadingTables s"
    and "loadingSchema (add a s) = loadingSchema s"
    and "query (add a s) = query s"
    and "running (add a s) = running s"
    and "result (add a s) = result s"
    and "history (add a s) = history s"
    and "uploading (add a s) = uploading s"
    and "progress (add a s) = progress s"
    and "storage (add a s) = storage s"
    and "net (add a s) = net s"
  by (simp_all add: add_def Let_def)

section \<open>Facts about responses\<close>




section \<open>Schema fetches and selection\<close>







section \<open>The notification lifecycle\<close>

text \<open>
  C6, as the code has it. A pushed notification gets a timer due 6000 ms after its
  creation and is in the list; once the clock reaches that time it is gone; until then it
  stays, provided no older timer carries the same random id. A manual dismissal does not
  touch the timers: the scheduled removal stays registered and still runs. Removal only
  filters the list, so it is idempotent, never adds an entry, and a notification
  dismissed by hand is absent after any later passage of time.
\<close>

theorem notification_lifecycle:
  fixes st st' :: "'a toast_state_scheme"
  shows
    "(let i = ids st (drawn st); st1 = add a st in
        (now st + 6000, i) \<in> set (timers st1)
      \<and> i \<in> tid ` set (toasts st1)
      \<and> i \<notin> tid ` set (toasts (advance_to (now st + 6000) st1))
      \<and> (i \<notin> snd ` set (timers st) \<and> t < now st + 6000
           \<longrightarrow> i \<in> tid ` set (toasts (advance_to t st1)))
      \<and> i \<notin> tid ` set (toasts (advance_to t2 (remove i (advance_to t1 st1)))))
     \<and> timers (remove j st') = timers st'
     \<and> remove j (remove j st') = remove j st'
     \<and> set (toasts (remove j st')) \<subseteq> set (toasts st')
     \<and> set (toasts (advance_to t st')) \<subseteq> set (toasts st')"
proof -
  define i where "i = ids st (drawn st)"
  define st1 where "st1 = add a st"
  have tm: "timers st1 = timers st @ [(now st + 6000, i)]"
    by (simp add: st1_def i_def add_fields)
  have a1: "(now st + 6000, i) \<in> set (timers st1)" by (simp add: tm)
  have a2: "i \<in> tid ` set (toasts st1)"
    by (simp add: st1_def i_def add_fields)
  have a3: "i \<notin> tid ` set (toasts (advance_to (now st + 6000) st1))"
    using a1 by (auto simp: toasts_advance_to)
  have a4: "i \<notin> snd ` set (timers st) \<and> t < now st + 6000
           \<longrightarrow> i \<in> tid ` set (toasts (advance_to t st1))"
  proof
    assume h: "i \<notin> snd ` set (timers st) \<and> t < now st + 6000"
    then have "\<not> (\<exists>d. d \<le> t \<and> (d, i) \<in> set (timers st1))"
      by (force simp: tm)
    with a2 show "i \<in> tid ` set (toasts (advance_to t st1))"
      by (auto simp: toasts_advance_to)
  qed
  have a5: "i \<notin> tid ` set (toasts (advance_to t2 (remove i (advance_to t1 st1))))"
    by (auto simp: toasts_advance_to toasts_remove)
  have b1: "timers (remove j st') = timers st'" by (rule timers_remove)
  have b2: "remove j (remove j st') = remove j st'" by (rule remove_idem)
  have b3: "set (toasts (remove j st')) \<subseteq> set (toasts st')"
    by (auto simp: toasts_remove)
  have b4: "set (toasts (advance_to t st')) \<subseteq> set (toasts st')"
    by (auto simp: toasts_advance_to)
  show ?thesis
    using a1 a2 a3 a4 a5 b1 b2 b3 b4 unfolding i_def st1_def Let_def by blast
qed

text \<open>A first notification: present at 5999 ms, gone at 6000 ms.\<close>

theorem notification_lifecycle_witness:
  "ids toast0 (drawn toast0) = ''k''
   \<and> ''k'' \<notin> snd ` set (timers toast0) \<and> (5999::nat) < now toast0 + 6000
   \<and> ''k'' \<in> tid ` set (toasts (advance_to 5999 (add saved toast0)))
   \<and> ''k'' \<notin> tid ` set (toasts (advance_to 6000 (add saved toast0)))"
  using notification_lifecycle [where st = toast0 and a = saved and t = 5999
      and ?t1.0 = 0 and ?t2.0 = 0 and j = "''k''" and st' = toast0]
  by (simp add: toast0_def Let_def)

text \<open>
  A notification pushed at 0 ms and dismissed by hand at 2000 ms: it is gone, and its
  timer for 6000 ms is still registered.
\<close>

theorem dismiss_keeps_timer:
  "timers (remove ''k'' (advance_to 2000 (add saved toast0))) = [(6000, ''k'')]
   \<and> toasts (remove ''k'' (advance_to 2000 (add saved toast0))) = []"
  by (simp add: timers_remove timers_advance_to toasts_remove toasts_advance_to
      add_fields toast0_def)

section \<open>Running a query\<close>

lemma trim_examples: "trim ''q3'' = ''q3''" "trim ''top 10'' = ''top 10''"
  by (simp_all add: trim_def is_ws_def)





text \<open>The guards that are there: a blank text on every path, a run in flight on the button.\<close>

lemma runQuery_start_blank: "trim (query s) = [] \<Longrightarrow> runQuery_start s = s"
  by (simp add: runQuery_start_def)

lemma blank_is_noop:
  "trim (query s) = [] \<Longrightarrow> handleKeySubmit e s = s \<and> click_run s = s \<and> runQuery r s = s"
  by (simp add: handleKeySubmit_def click_run_def runQuery_def runQuery_start_def)

lemma click_run_running: "running s \<Longrightarrow> click_run s = s"
  by (simp add: click_run_def)

text \<open>
  C3 at a workspace with a query in flight: a click on the run button changes nothing,
  the Enter key sends the query a second time.
\<close>

theorem enter_while_running:
  "running busy
   \<and> net busy = [PostQuery ''top 10'']
   \<and> click_run busy = busy
   \<and> net (handleKeySubmit enter busy) = [PostQuery ''top 10'', PostQuery ''top 10'']
   \<and> handleKeySubmit enter busy \<noteq> busy"
proof -
  have n: "net (handleKeySubmit enter busy) = [PostQuery ''top 10'', PostQuery ''top 10'']"
    by (simp add: handleKeySubmit_def enter_def busy_def runQuery_start_def trim_examples app0_def)
  have b: "net busy = [PostQuery ''top 10'']" by (simp add: busy_def)
  have r: "running busy" by (simp add: busy_def)
  from n b have "handleKeySubmit enter busy \<noteq> busy" by auto
  with n b r show ?thesis by (simp add: click_run_def)
qed

section \<open>The history\<close>









section \<open>Uploads\<close>

lemma endsWith_lower:
  "endsWith (toLowerCase n) e = (\<exists>p x. n = p @ x \<and> toLowerCase x = e)"
proof
  assume h: "endsWith (toLowerCase n) e"
  define k where "k = length n - length e"
  have "n = take k n @ drop k n" by simp
  moreover have "toLowerCase (drop k n) = e"
    using h by (simp add: endsWith_def toLowerCase_def k_def drop_map)
  ultimately show "\<exists>p x. n = p @ x \<and> toLowerCase x = e" by blast
next
  assume "\<exists>p x. n = p @ x \<and> toLowerCase x = e"
  then obtain p x where n: "n = p @ x" and e: "toLowerCase x = e" by blast
  have "length e = length x" using e by (auto simp: toLowerCase_def)
  then show "endsWith (toLowerCase n) e"
    using e by (simp add: endsWith_def n toLowerCase_def)
qed

lemma unsupported_iff:
  "unsupported f =
     (ftype f \<notin> {''text/csv'', ''application/vnd.ms-excel'',
                  ''application/vnd.openxmlformats-officedocument.spreadsheetml.sheet''}
      \<and> (\<forall>p x. fname f = p @ x \<longrightarrow> toLowerCase x \<notin> {''.csv'', ''.xlsx'', ''.xls''}))"
  unfolding unsupported_def endsWith_lower includes_js_def allowed_def
  by (simp only: set_simps) blast

lemma handleFiles_rejects:
  "unsupported f \<Longrightarrow>
     handleFiles (f # fs) s =
       add (error_toast ''Unsupported file'' ''Please upload CSV or Excel files.'') s"
  by (simp add: handleFiles_def)

lemma handleFiles_accepts:
  "\<not> unsupported f \<Longrightarrow>
     handleFiles (f # fs) s = s\<lparr>uploading := True, net := net s @ [PostUpload ''file'' f]\<rparr>"
  by (simp add: handleFiles_def)

text \<open>
  C7. A file whose type is none of the three accepted ones and whose name has no ending
  that reads \<open>.csv\<close>, \<open>.xlsx\<close> or \<open>.xls\<close> once lower-cased is refused: one error
  notification, no request, the upload flag untouched. Any other file is sent as the
  form field \<open>file\<close> of one upload request, without a notification.
\<close>

theorem upload_validation:
  "(ftype f \<notin> {''text/csv'', ''application/vnd.ms-excel'',
                 ''application/vnd.openxmlformats-officedocument.spreadsheetml.sheet''}
     \<and> (\<forall>p x. fname f = p @ x \<longrightarrow> toLowerCase x \<notin> {''.csv'', ''.xlsx'', ''.xls''})
     \<longrightarrow> net (handleFiles (f # fs) s) = net s
       \<and> uploading (handleFiles (f # fs) s) = uploading s
       \<and> toasts (handleFiles (f # fs) s) = toasts s @
           [\<lparr>tid = ids s (drawn s), ttype = Error, title = ''Unsupported file'',
             message = Some ''Please upload CSV or Excel files.''\<rparr>])
   \<and> (ftype f \<in> {''text/csv'', ''application/vnd.ms-excel'',
                 ''application/vnd.openxmlformats-officedocument.spreadsheetml.sheet''}
      \<or> (\<exists>p x. fname f = p @ x \<and> toLowerCase x \<in> {''.csv'', ''.xlsx'', ''.xls''})
     \<longrightarrow> net (handleFiles (f # fs) s) = net s @ [PostUpload ''file'' f]
       \<and> uploading (handleFiles (f # fs) s)
       \<and> toasts (handleFiles (f # fs) s) = toasts s)"
proof (cases "unsupported f")
  case True
  then show ?thesis
    using True [unfolded unsupported_iff]
    by (simp add: handleFiles_rejects add_fields add_app_fields error_toast_def)
next
  case False
  then show ?thesis
    using False [unfolded unsupported_iff]
    by (auto simp add: handleFiles_accepts)
qed

lemma unsupported_examples: "unsupported data_txt" "\<not> unsupported sales_csv"
  by (simp_all add: unsupported_def data_txt_def sales_csv_def endsWith_def
      includes_js_def allowed_def) (code_simp+)

text \<open>\<open>data.txt\<close> is refused, \<open>sales.csv\<close> is sent.\<close>

theorem upload_validation_witness:
  "unsupported data_txt \<and> net (handleFiles [data_txt] app0) = []
   \<and> map title (toasts (handleFiles [data_txt] app0)) = [''Unsupported file'']
   \<and> \<not> unsupported sales_csv
   \<and> net (handleFiles [sales_csv] app0) = [PostUpload ''file'' sales_csv]"
proof -
  have u: "unsupported data_txt" by (rule unsupported_examples)
  have a: "\<not> unsupported sales_csv" by (rule unsupported_examples)
  have r1: "net (handleFiles [data_txt] app0) = net app0
      \<and> toasts (handleFiles [data_txt] app0) = toasts app0 @
           [\<lparr>tid = ids app0 (drawn app0), ttype = Error, title = ''Unsupported file'',
             message = Some ''Please upload CSV or Excel files.''\<rparr>]"
    using upload_validation [where f = data_txt and fs = "[]" and s = app0]
      u [unfolded unsupported_iff] by blast
  have r2: "net (handleFiles [sales_csv] app0) = net app0 @ [PostUpload ''file'' sales_csv]"
    using upload_validation [where f = sales_csv and fs = "[]" and s = app0]
      a [unfolded unsupported_iff] by blast
  show ?thesis using u a r1 r2 by (simp add: app0_def)
qed








section \<open>Deleting a table\<close>

lemma deleteTable_done:
  assumes "ok status"
  shows "deleteTable tbl True (Resp status b) rlist s =
     (let s2 = refreshTables rlist (add (plain_toast ''Table deleted'' None)
                 (s\<lparr>net := net s @ [DeleteTable (String_opt (table_ident tbl))]\<rparr>))
      in if truthy (selectedTable s)
            \<and> strict_eq (opt_prop (selectedTable s) ''id'') (get_prop tbl ''id'')
         then s2\<lparr>selectedTable := None, schema := None\<rparr> else s2)"
  using assms by (simp add: deleteTable_def settle_status_def Let_def)

lemma refreshTables_keeps:
  "selectedTable (refreshTables r s) = selectedTable s"
  "schema (refreshTables r s) = schema s"
  "net (refreshTables r s) = net s @ [ListTables]"
  by (simp_all add: refreshTables_def refreshTables_resolve_def refreshTables_start_def
      add_app_fields split: sum.splits)

lemma deleteTable_with_ids:
  assumes "ok status" "selectedTable s = Some sel"
    and "get_prop sel ''id'' = Some (JStr a)" "get_prop tbl ''id'' = Some (JStr b)"
  shows "a = b \<Longrightarrow> selectedTable (deleteTable tbl True (Resp status body) rlist s) = None
                 \<and> schema (deleteTable tbl True (Resp status body) rlist s) = None"
    and "a \<noteq> b \<Longrightarrow> selectedTable (deleteTable tbl True (Resp status body) rlist s) = Some sel
                 \<and> schema (deleteTable tbl True (Resp status body) rlist s) = schema s"
    and "ListTables \<in> set (net (deleteTable tbl True (Resp status body) rlist s))"
proof -
  have t: "truthy (Some sel)"
    using assms(3) by (cases sel) (simp_all add: get_prop_def)
  show "a = b \<Longrightarrow> selectedTable (deleteTable tbl True (Resp status body) rlist s) = None
                 \<and> schema (deleteTable tbl True (Resp status body) rlist s) = None"
    using assms t by (simp add: deleteTable_done Let_def strict_eq_def opt_prop_def)
  show "a \<noteq> b \<Longrightarrow> selectedTable (deleteTable tbl True (Resp status body) rlist s) = Some sel
                 \<and> schema (deleteTable tbl True (Resp status body) rlist s) = schema s"
    using assms t
    by (simp add: deleteTable_done Let_def strict_eq_def opt_prop_def refreshTables_keeps
        add_app_fields)
  show "ListTables \<in> set (net (deleteTable tbl True (Resp status body) rlist s))"
    using assms(1) by (simp add: deleteTable_done Let_def refreshTables_keeps)
qed

text \<open>
  C9 at a listing whose rows carry a name and no \<open>id\<close>: with \<open>a\<close> selected, deleting
  \<open>b\<close> clears the selection and the cached schema, since both \<open>id\<close> reads are
  \<open>undefined\<close>.
\<close>

theorem delete_other_clears_selection:
  "selectedTable viewing_a = Some named_a
   \<and> schema viewing_a = Some schemaA
   \<and> table_ident named_a = Some (JStr ''a'')
   \<and> table_ident named_b = Some (JStr ''b'')
   \<and> selectedTable (deleteTable named_b True (Resp 204 (Inl ''empty'')) (Resp 200 (Inr (JArr [named_a]))) viewing_a) = None
   \<and> schema (deleteTable named_b True (Resp 204 (Inl ''empty'')) (Resp 200 (Inr (JArr [named_a]))) viewing_a) = None
   \<and> net (deleteTable named_b True (Resp 204 (Inl ''empty'')) (Resp 200 (Inr (JArr [named_a]))) viewing_a)
       = [DeleteTable ''b'', ListTables]"
  by (simp add: deleteTable_done ok_def Let_def viewing_a_def named_a_def named_b_def
      strict_eq_def opt_prop_def get_prop_def table_ident_def js_or_def String_opt_def
      refreshTables_keeps add_app_fields app0_def)

section \<open>Loading the history\<close>

text \<open>
  C10. With a \<open>JSON.parse\<close> that reads \<open>[]\<close> as the empty array, the initializer
  returns the empty array when storage has no \<open>query_history\<close>, when it holds the empty
  text, and when it holds a text that \<open>JSON.parse\<close> rejects; it has no other outcome
  than a value.
\<close>

theorem load_history_safe:
  assumes "parse ''[]'' = Some (JArr [])"
  shows "(store ''query_history'' = None \<longrightarrow> load_history parse store = JArr [])
       \<and> (store ''query_history'' = Some [] \<longrightarrow> load_history parse store = JArr [])
       \<and> (\<forall>v. store ''query_history'' = Some v \<and> parse v = None
              \<longrightarrow> load_history parse store = JArr [])"
  using assms by (auto simp: load_history_def)

text \<open>No stored value, and a stored value that does not parse.\<close>

theorem load_history_safe_witness:
  "parse_fragment ''[]'' = Some (JArr [])
   \<and> load_history parse_fragment Map.empty = JArr []
   \<and> load_history parse_fragment [''query_history'' \<mapsto> []] = JArr []
   \<and> parse_fragment ''{broken'' = None
   \<and> load_history parse_fragment [''query_history'' \<mapsto> ''{broken''] = JArr []"
  using load_history_safe [where parse = parse_fragment and store = Map.empty]
    load_history_safe [where parse = parse_fragment and store = "[''query_history'' \<mapsto> []]"]
    load_history_safe [where parse = parse_fragment
      and store = "[''query_history'' \<mapsto> ''{broken'']"]
  by (simp add: parse_fragment_def)

section \<open>The export and the reader\<close>






















end
